theory Spec2Isabelle
  imports Main "HOL-Library.Sublist"
begin

section \<open>Cargo tasks of the Rust extension (src/tasks.ts)\<close>

text \<open>
  A shallow embedding of \<^verbatim>\<open>src/tasks.ts\<close>: the construction of shell executions
  from \<^verbatim>\<open>Execution\<close> requests, the task provider (\<^verbatim>\<open>detectCargoTasks\<close>,
  \<^verbatim>\<open>resolveCargoTask\<close>), the two launchers (\<^verbatim>\<open>runRlsCommand\<close>,
  \<^verbatim>\<open>runTaskCommand\<close>) and the listener that \<^verbatim>\<open>runTaskCommand\<close> registers on
  \<^verbatim>\<open>tasks.onDidEndTask\<close>.

  An optional field (\<^verbatim>\<open>command?: string\<close>) is an \<open>option\<close>: \<open>None\<close> is
  \<^verbatim>\<open>undefined\<close>. A string is a \<open>string\<close>.
\<close>

subsection \<open>JavaScript operators used by the file\<close>

text \<open>
  \<^verbatim>\<open>a || b\<close> on optional strings: \<^verbatim>\<open>undefined\<close> and the empty string are falsy, so
  \<open>b\<close> is the value in both cases.
\<close>

definition truthy :: "string option \<Rightarrow> bool" where
  "truthy a = (case a of None \<Rightarrow> False | Some s \<Rightarrow> s \<noteq> [])"

definition js_or :: "string option \<Rightarrow> string option \<Rightarrow> string option" where
  "js_or a b = (if truthy a then a else b)"

text \<open>
  \<^verbatim>\<open>a ?? b\<close>: only \<^verbatim>\<open>undefined\<close> (and \<^verbatim>\<open>null\<close>) give \<open>b\<close>.
\<close>

definition nullish_or :: "'a option \<Rightarrow> 'a \<Rightarrow> 'a" where
  "nullish_or a b = (case a of None \<Rightarrow> b | Some v \<Rightarrow> v)"

text \<open>
  A template literal \<^verbatim>\<open>`${x}`\<close> converts \<open>x\<close> to a string: \<^verbatim>\<open>undefined\<close> becomes
  the nine characters \<^verbatim>\<open>undefined\<close>.
\<close>

fun toString :: "string option \<Rightarrow> string" where
  "toString None = ''undefined''"
| "toString (Some s) = s"

text \<open>
  \<^verbatim>\<open>Array.prototype.join\<close> on an array of strings: the elements in order, the
  separator between every two neighbours, the empty string for the empty array.
\<close>

fun Array_join :: "string \<Rightarrow> string list \<Rightarrow> string" where
  "Array_join sep [] = []"
| "Array_join sep [x] = x"
| "Array_join sep (x # y # ys) = x @ sep @ Array_join sep (y # ys)"

subsection \<open>Data\<close>

type_synonym Env = "(string \<times> string) list"

text \<open>The interface \<^verbatim>\<open>Execution\<close> (lines 36 to 48).\<close>

record Execution =
  binary :: "string option"
  command :: "string option"
  args :: "string list"
  env :: "Env option"
  cwd :: "string option"

text \<open>The interface \<^verbatim>\<open>CargoTaskDefinition\<close> (lines 26 to 31); \<^verbatim>\<open>type\<close> is the
  required field of the host's \<^verbatim>\<open>TaskDefinition\<close>.\<close>

record CargoTaskDefinition =
  dtype :: string
  dcommand :: "string option"
  dargs :: "string list option"
  dcwd :: "string option"
  denv :: "Env option"

text \<open>The part of the host's \<^verbatim>\<open>WorkspaceFolder\<close> that the file reads:
  \<^verbatim>\<open>name\<close> and \<^verbatim>\<open>uri.fsPath\<close>.\<close>

record WorkspaceFolder =
  folder_name :: string
  fsPath :: string

record ShellExecutionOptions =
  opt_cwd :: "string option"
  opt_env :: "Env option"

text \<open>
  The executions a host task can carry. \<^verbatim>\<open>ShellExecution\<close> has two constructors in
  the host API: from a command line, and from a command with arguments; only the first
  sets the \<^verbatim>\<open>commandLine\<close> property.
\<close>

datatype TaskExecution =
    ShellExecution_commandLine string ShellExecutionOptions
  | ShellExecution_command string "string list" ShellExecutionOptions
  | ProcessExecution string "string list"
  | CustomExecution

fun instanceof_ShellExecution :: "TaskExecution option \<Rightarrow> bool" where
  "instanceof_ShellExecution (Some (ShellExecution_commandLine l opts)) = True"
| "instanceof_ShellExecution (Some (ShellExecution_command c a opts)) = True"
| "instanceof_ShellExecution _ = False"

fun commandLine :: "TaskExecution \<Rightarrow> string option" where
  "commandLine (ShellExecution_commandLine l opts) = Some l"
| "commandLine _ = None"

datatype TaskGroup = Build | Test | Clean | Rebuild

record Task =
  task_definition :: CargoTaskDefinition
  task_scope :: "WorkspaceFolder option"
  task_name :: string
  task_source :: string
  task_execution :: "TaskExecution option"
  task_problemMatchers :: "string list option"
  task_group :: "TaskGroup option"

text \<open>
  \<^verbatim>\<open>new Task(definition, scope, name, source, execution?, problemMatchers?)\<close>: the
  fields are the arguments, the group is not set.
\<close>

definition new_Task ::
  "CargoTaskDefinition \<Rightarrow> WorkspaceFolder option \<Rightarrow> string \<Rightarrow> string \<Rightarrow>
   TaskExecution option \<Rightarrow> string list option \<Rightarrow> Task" where
  "new_Task d sc n src ex pm =
     \<lparr>task_definition = d, task_scope = sc, task_name = n, task_source = src,
      task_execution = ex, task_problemMatchers = pm, task_group = None\<rparr>"

definition TASK_SOURCE :: string where
  "TASK_SOURCE = ''Rust''"

definition TASK_TYPE :: string where
  "TASK_TYPE = ''cargo''"

subsection \<open>createShellExecution\<close>

definition createShellExecution :: "Execution \<Rightarrow> TaskExecution" where
  "createShellExecution execution =
     (let cmdLine = toString (js_or (command execution) (binary execution)) @ '' '' @
                    Array_join '' '' (args execution)
      in ShellExecution_commandLine cmdLine
           \<lparr>opt_cwd = cwd execution, opt_env = env execution\<rparr>)"

subsection \<open>resolveCargoTask\<close>

text \<open>
  Lines 83 to 103. \<^verbatim>\<open>undefined\<close> is \<open>None\<close>. The condition
  \<^verbatim>\<open>definition.type === 'cargo' && definition.command\<close> holds when the type is the
  literal and the command is a non-empty string; the model reads the optional command
  first, so that its string is at hand where the condition holds. The definition is
  passed to \<^verbatim>\<open>ShellExecution\<close> as its options, which read \<^verbatim>\<open>cwd\<close> and
  \<^verbatim>\<open>env\<close>. The body has no \<^verbatim>\<open>throw\<close>, so the result is an \<open>option\<close>.
\<close>

definition resolveCargoTask :: "Task \<Rightarrow> WorkspaceFolder \<Rightarrow> Task option" where
  "resolveCargoTask task target =
     (let d = task_definition task in
      case dcommand d of
        None \<Rightarrow> None
      | Some c \<Rightarrow>
          if dtype d = ''cargo'' \<and> truthy (Some c) then
            (let args' = [c] @ nullish_or (dargs d) [] in
             Some (new_Task d (Some target) (task_name task) TASK_SOURCE
                     (Some (ShellExecution_command ''cargo'' args'
                              \<lparr>opt_cwd = dcwd d, opt_env = denv d\<rparr>))
                     (Some (nullish_or (task_problemMatchers task) [''$rustc'']))))
          else None)"

subsection \<open>detectCargoTasks\<close>

text \<open>The object that the first \<^verbatim>\<open>map\<close> of lines 113 to 123 builds.\<close>

record DetectedTask =
  dt_definition :: CargoTaskDefinition
  dt_label :: string
  dt_execution :: TaskExecution
  dt_group :: "TaskGroup option"
  dt_problemMatchers :: "string list"

definition detectCargoTasks :: "WorkspaceFolder \<Rightarrow> Task list" where
  "detectCargoTasks target =
     map (\<lambda>task.
            (new_Task (dt_definition task) (Some target) (dt_label task) TASK_SOURCE
               (Some (dt_execution task)) (Some (dt_problemMatchers task)))
            \<lparr>task_group := dt_group task\<rparr>)
       (map (\<lambda>(cmd, grp).
               \<lparr>dt_definition =
                  \<lparr>dtype = TASK_TYPE, dcommand = Some cmd, dargs = None, dcwd = None,
                   denv = None\<rparr>,
                dt_label = ''cargo '' @ cmd @ '' - '' @ folder_name target,
                dt_execution =
                  createShellExecution
                    \<lparr>binary = None, command = Some ''cargo'', args = [cmd], env = None,
                     cwd = Some (fsPath target)\<rparr>,
                dt_group = grp,
                dt_problemMatchers = [''$rustc'']\<rparr>)
          [(''build'', Some Build), (''check'', Some Build), (''test'', Some Test),
           (''clean'', Some Clean), (''run'', None)])"

subsection \<open>runRlsCommand and runTaskCommand\<close>

text \<open>The task definition \<^verbatim>\<open>{ type: 'shell' }\<close>.\<close>

definition shell_definition :: CargoTaskDefinition where
  "shell_definition =
     \<lparr>dtype = ''shell'', dcommand = None, dargs = None, dcwd = None, denv = None\<rparr>"


text \<open>
  The promise of \<^verbatim>\<open>runTaskCommand\<close> with its listener: the command line that the
  closure compares with, whether the listener is still registered (not disposed), and
  how many times \<^verbatim>\<open>resolve\<close> was called.
\<close>

record Pending =
  key :: string
  registered :: bool
  resolved :: nat

datatype error = TypeError

text \<open>
  \<^verbatim>\<open>folder || workspace.workspaceFolders![0]\<close>: with no folder, reading index 0 of
  an \<^verbatim>\<open>undefined\<close> list of workspace folders throws, and index 0 of an empty list is
  \<^verbatim>\<open>undefined\<close>.
\<close>

definition task_folder ::
  "WorkspaceFolder option \<Rightarrow> WorkspaceFolder list option \<Rightarrow> error + WorkspaceFolder option" where
  "task_folder folder workspaceFolders =
     (case folder of
        Some f \<Rightarrow> Inr (Some f)
      | None \<Rightarrow>
          (case workspaceFolders of
             None \<Rightarrow> Inl TypeError
           | Some [] \<Rightarrow> Inr None
           | Some (f # fs) \<Rightarrow> Inr (Some f)))"

text \<open>
  Lines 164 to 198. The list of workspace folders of the host is a parameter. The
  value is the task handed to \<^verbatim>\<open>tasks.executeTask\<close> together with the pending
  promise, whose listener is registered and whose key is the local \<^verbatim>\<open>commandLine\<close>.
  No problem matchers are passed to the task.
\<close>

definition runTaskCommand ::
  "Execution \<Rightarrow> string \<Rightarrow> WorkspaceFolder option \<Rightarrow> WorkspaceFolder list option \<Rightarrow>
   error + (Task \<times> Pending)" where
  "runTaskCommand execution displayName folder workspaceFolders =
     (let commandLine' = toString (command execution) @ '' '' @
                         Array_join '' '' (args execution)
      in case task_folder folder workspaceFolders of
           Inl e \<Rightarrow> Inl e
         | Inr scope \<Rightarrow>
             Inr (new_Task shell_definition scope displayName TASK_SOURCE
                    (Some (ShellExecution_commandLine commandLine'
                             \<lparr>opt_cwd = js_or (cwd execution) (map_option fsPath folder),
                              opt_env = env execution\<rparr>))
                    None,
                  \<lparr>key = commandLine', registered = True, resolved = 0\<rparr>))"

text \<open>
  The listener of lines 185 to 194, called with the task of the ended execution: when the
  task's execution is a \<^verbatim>\<open>ShellExecution\<close> whose \<^verbatim>\<open>commandLine\<close> is the key, it
  disposes its registration and calls \<^verbatim>\<open>resolve\<close>; otherwise it does nothing.
\<close>

definition onDidEndTask_listener :: "Task \<Rightarrow> Pending \<Rightarrow> Pending" where
  "onDidEndTask_listener endedTask p =
     (let taskExecution = task_execution endedTask in
      if instanceof_ShellExecution taskExecution \<and>
         Option.bind taskExecution commandLine = Some (key p)
      then p\<lparr>registered := False, resolved := Suc (resolved p)\<rparr>
      else p)"

text \<open>
  The host's event: a "task ended" notification calls a listener only while it is
  registered.
\<close>

definition onDidEndTask_fire :: "Task \<Rightarrow> Pending \<Rightarrow> Pending" where
  "onDidEndTask_fire endedTask p =
     (if registered p then onDidEndTask_listener endedTask p else p)"

text \<open>A sequence of notifications, oldest first, delivered to one pending promise.\<close>

definition notifications :: "Task list \<Rightarrow> Pending \<Rightarrow> Pending" where
  "notifications ts p = fold onDidEndTask_fire ts p"

text \<open>
  A run of the host: awaited submissions and "task ended" notifications in the order
  in which they happen. The state is the list of pending promises, one for each
  submission that did not throw, in the order of submission.
\<close>

datatype Event = Submit Execution string | TaskEnded Task

fun step ::
  "WorkspaceFolder option \<Rightarrow> WorkspaceFolder list option \<Rightarrow> Pending list \<Rightarrow> Event \<Rightarrow>
   Pending list" where
  "step folder wfs ps (Submit execution displayName) =
     (case runTaskCommand execution displayName folder wfs of
        Inl e \<Rightarrow> ps
      | Inr (t, p) \<Rightarrow> ps @ [p])"
| "step folder wfs ps (TaskEnded t) = map (onDidEndTask_fire t) ps"

definition session ::
  "WorkspaceFolder option \<Rightarrow> WorkspaceFolder list option \<Rightarrow> Event list \<Rightarrow> Pending list" where
  "session folder wfs evs = foldl (step folder wfs) [] evs"

section \<open>Properties\<close>

text \<open>
  C8. For every execution request, the command line that \<open>createShellExecution\<close> builds
  ends with the arguments joined by single spaces, character for character: it is the
  program, one space, and the joined arguments, with nothing escaped or quoted.
\<close>

theorem createShellExecution_ends_with_args:
  "commandLine (createShellExecution execution) =
     Some (toString (js_or (command execution) (binary execution)) @ '' '' @
           Array_join '' '' (args execution)) \<and>
   (\<exists>l. commandLine (createShellExecution execution) = Some l \<and>
        suffix (Array_join '' '' (args execution)) l)"
  by (simp add: createShellExecution_def suffix_def)

subsection \<open>Helper facts\<close>

lemma js_or_truthy: "c \<noteq> [] \<Longrightarrow> js_or (Some c) b = Some c"
  by (simp add: js_or_def truthy_def)

text \<open>
  With a non-empty \<^verbatim>\<open>command\<close>, \<open>runTaskCommand\<close> and \<open>createShellExecution\<close> build
  the same command line.
\<close>

lemma runTaskCommand_agrees_on_command:
  assumes "command e = Some c" and "c \<noteq> []"
    and "runTaskCommand e n folder wfs = Inr (t, p)"
  shows "Some (key p) = commandLine (createShellExecution e)"
    and "Option.bind (task_execution t) commandLine = Some (key p)"
  using assms
  by (auto simp: runTaskCommand_def createShellExecution_def new_Task_def js_or_truthy
      Let_def split: sum.splits)

subsection \<open>The command line of an awaited submission\<close>

text \<open>
  C1. The claim: the command line that \<open>runTaskCommand\<close> executes and keeps as key is
  the one that \<open>createShellExecution\<close> builds for the same request, with the program
  taken from \<^verbatim>\<open>command\<close> and, failing that, from \<^verbatim>\<open>binary\<close>. The code of
  \<open>runTaskCommand\<close> reads \<^verbatim>\<open>command\<close> only: for the request with
  \<^verbatim>\<open>binary: 'rustup'\<close>, no \<^verbatim>\<open>command\<close> and the argument \<^verbatim>\<open>update\<close>, it
  executes and waits for \<^verbatim>\<open>undefined update\<close>, where \<open>createShellExecution\<close>
  builds \<^verbatim>\<open>rustup update\<close>.
\<close>

theorem runTaskCommand_binary_only:
  "runTaskCommand
     \<lparr>binary = Some ''rustup'', command = None, args = [''update''], env = None, cwd = None\<rparr>
     ''Updating'' (Some \<lparr>folder_name = ''app'', fsPath = ''/home/app''\<rparr>) None =
   Inr (\<lparr>task_definition = shell_definition,
         task_scope = Some \<lparr>folder_name = ''app'', fsPath = ''/home/app''\<rparr>,
         task_name = ''Updating'', task_source = ''Rust'',
         task_execution =
           Some (ShellExecution_commandLine ''undefined update''
                   \<lparr>opt_cwd = Some ''/home/app'', opt_env = None\<rparr>),
         task_problemMatchers = None, task_group = None\<rparr>,
        \<lparr>key = ''undefined update'', registered = True, resolved = 0\<rparr>) \<and>
   commandLine (createShellExecution
     \<lparr>binary = Some ''rustup'', command = None, args = [''update''], env = None, cwd = None\<rparr>)
   = Some ''rustup update''"
  by (simp add: runTaskCommand_def createShellExecution_def task_folder_def new_Task_def
      TASK_SOURCE_def js_or_def truthy_def Let_def)

subsection \<open>The program of a shell execution\<close>

text \<open>
  C2, as stated, fails where \<^verbatim>\<open>command\<close> is set to the empty string: the empty
  string is falsy, so \<^verbatim>\<open>command || binary\<close> is \<^verbatim>\<open>binary\<close>, and the command line
  depends on \<^verbatim>\<open>binary\<close>.
\<close>

theorem createShellExecution_empty_command_uses_binary:
  "commandLine (createShellExecution
     \<lparr>binary = Some ''rls'', command = Some [], args = [''build''], env = None, cwd = None\<rparr>)
   = Some ''rls build'' \<and>
   commandLine (createShellExecution
     \<lparr>binary = None, command = Some [], args = [''build''], env = None, cwd = None\<rparr>)
   = Some ''undefined build''"
  by (simp add: createShellExecution_def js_or_def truthy_def)

text \<open>
  C2, amended. When \<^verbatim>\<open>command\<close> is a non-empty string, the program of the command
  line is \<^verbatim>\<open>command\<close> and the execution is the same whatever \<^verbatim>\<open>binary\<close> holds;
  when \<^verbatim>\<open>command\<close> is absent and \<^verbatim>\<open>binary\<close> is set, the program is
  \<^verbatim>\<open>binary\<close>.
\<close>

theorem createShellExecution_prefers_command:
  "(command e = Some c \<and> c \<noteq> [] \<longrightarrow>
      commandLine (createShellExecution e) = Some (c @ '' '' @ Array_join '' '' (args e)) \<and>
      createShellExecution (e\<lparr>binary := b'\<rparr>) = createShellExecution e) \<and>
   (command e = None \<and> binary e = Some b \<longrightarrow>
      commandLine (createShellExecution e) = Some (b @ '' '' @ Array_join '' '' (args e)))"
  by (auto simp: createShellExecution_def js_or_def truthy_def)

theorem createShellExecution_prefers_command_witness:
  "commandLine (createShellExecution
     \<lparr>binary = Some ''rls'', command = Some ''cargo'', args = [''build'', ''--all''],
      env = None, cwd = None\<rparr>) = Some ''cargo build --all'' \<and>
   createShellExecution
     \<lparr>binary = None, command = Some ''cargo'', args = [''build'', ''--all''],
      env = None, cwd = None\<rparr> =
   createShellExecution
     \<lparr>binary = Some ''rls'', command = Some ''cargo'', args = [''build'', ''--all''],
      env = None, cwd = None\<rparr> \<and>
   commandLine (createShellExecution
     \<lparr>binary = Some ''rls'', command = None, args = [''build'', ''--all''],
      env = None, cwd = None\<rparr>) = Some ''rls build --all''"
  using createShellExecution_prefers_command
    [of "\<lparr>binary = Some ''rls'', command = Some ''cargo'', args = [''build'', ''--all''],
          env = None, cwd = None\<rparr>" "''cargo''" None "''unused''"]
    createShellExecution_prefers_command
    [of "\<lparr>binary = Some ''rls'', command = None, args = [''build'', ''--all''],
          env = None, cwd = None\<rparr>" "''unused''" None "''rls''"]
  by simp

subsection \<open>The catalog of detected tasks\<close>

text \<open>
  C3. For every project root, \<open>detectCargoTasks\<close> returns five tasks, in the order
  build, check, test, clean, run: the definition of each names its subcommand, the label
  is \<^verbatim>\<open>cargo <subcommand> - <root-name>\<close>, the command line is
  \<^verbatim>\<open>cargo <subcommand>\<close>, and the groups are Build, Build, Test, Clean and none.
\<close>

theorem detectCargoTasks_catalog:
  "length (detectCargoTasks target) = 5 \<and>
   map (\<lambda>t. (dcommand (task_definition t), task_name t,
              Option.bind (task_execution t) commandLine, task_group t))
     (detectCargoTasks target) =
   [(Some ''build'', ''cargo build - '' @ folder_name target, Some ''cargo build'', Some Build),
    (Some ''check'', ''cargo check - '' @ folder_name target, Some ''cargo check'', Some Build),
    (Some ''test'', ''cargo test - '' @ folder_name target, Some ''cargo test'', Some Test),
    (Some ''clean'', ''cargo clean - '' @ folder_name target, Some ''cargo clean'', Some Clean),
    (Some ''run'', ''cargo run - '' @ folder_name target, Some ''cargo run'', None)]"
  by (simp add: detectCargoTasks_def new_Task_def createShellExecution_def js_or_def
      truthy_def)

subsection \<open>The resolver\<close>

text \<open>
  C4. \<open>resolveCargoTask\<close> is a total function without a throw in its body; it returns
  \<^verbatim>\<open>undefined\<close> exactly when the type of the definition is not \<^verbatim>\<open>cargo\<close> or its
  \<^verbatim>\<open>command\<close> is absent or the empty string, and a task in every other case.
\<close>

theorem resolveCargoTask_not_handled_iff:
  "(resolveCargoTask task target = None) =
     (dtype (task_definition task) \<noteq> ''cargo'' \<or>
      dcommand (task_definition task) = None \<or>
      dcommand (task_definition task) = Some [])"
  by (auto simp: resolveCargoTask_def truthy_def Let_def split: option.splits)

theorem resolveCargoTask_not_handled_iff_witness:
  "resolveCargoTask
     \<lparr>task_definition =
        \<lparr>dtype = ''npm'', dcommand = Some ''build'', dargs = None, dcwd = None, denv = None\<rparr>,
      task_scope = None, task_name = ''build'', task_source = ''Workspace'',
      task_execution = None, task_problemMatchers = None, task_group = None\<rparr>
     \<lparr>folder_name = ''app'', fsPath = ''/home/app''\<rparr> = None \<and>
   resolveCargoTask
     \<lparr>task_definition =
        \<lparr>dtype = ''cargo'', dcommand = Some [], dargs = None, dcwd = None, denv = None\<rparr>,
      task_scope = None, task_name = ''build'', task_source = ''Workspace'',
      task_execution = None, task_problemMatchers = None, task_group = None\<rparr>
     \<lparr>folder_name = ''app'', fsPath = ''/home/app''\<rparr> = None \<and>
   resolveCargoTask
     \<lparr>task_definition =
        \<lparr>dtype = ''cargo'', dcommand = Some ''build'', dargs = None, dcwd = None,
         denv = None\<rparr>,
      task_scope = None, task_name = ''build'', task_source = ''Workspace'',
      task_execution = None, task_problemMatchers = None, task_group = None\<rparr>
     \<lparr>folder_name = ''app'', fsPath = ''/home/app''\<rparr> \<noteq> None"
  using resolveCargoTask_not_handled_iff
    [of "\<lparr>task_definition =
            \<lparr>dtype = ''npm'', dcommand = Some ''build'', dargs = None, dcwd = None,
             denv = None\<rparr>,
          task_scope = None, task_name = ''build'', task_source = ''Workspace'',
          task_execution = None, task_problemMatchers = None, task_group = None\<rparr>"
        "\<lparr>folder_name = ''app'', fsPath = ''/home/app''\<rparr>"]
    resolveCargoTask_not_handled_iff
    [of "\<lparr>task_definition =
            \<lparr>dtype = ''cargo'', dcommand = Some [], dargs = None, dcwd = None, denv = None\<rparr>,
          task_scope = None, task_name = ''build'', task_source = ''Workspace'',
          task_execution = None, task_problemMatchers = None, task_group = None\<rparr>"
        "\<lparr>folder_name = ''app'', fsPath = ''/home/app''\<rparr>"]
    resolveCargoTask_not_handled_iff
    [of "\<lparr>task_definition =
            \<lparr>dtype = ''cargo'', dcommand = Some ''build'', dargs = None, dcwd = None,
             denv = None\<rparr>,
          task_scope = None, task_name = ''build'', task_source = ''Workspace'',
          task_execution = None, task_problemMatchers = None, task_group = None\<rparr>"
        "\<lparr>folder_name = ''app'', fsPath = ''/home/app''\<rparr>"]
  by simp

text \<open>
  C5, as stated, fails in its second half: the resolver builds no command line. Its
  execution is \<^verbatim>\<open>new ShellExecution('cargo', args, definition)\<close>, a shell
  execution of a program with a list of arguments, whose \<^verbatim>\<open>commandLine\<close> is
  \<^verbatim>\<open>undefined\<close>; resolving the command \<^verbatim>\<open>build\<close> with the arguments
  \<^verbatim>\<open>['--release']\<close> gives such an execution and not the string
  \<^verbatim>\<open>cargo build --release\<close>.
\<close>

theorem resolveCargoTask_without_commandLine:
  "map_option task_execution
     (resolveCargoTask
        \<lparr>task_definition =
           \<lparr>dtype = ''cargo'', dcommand = Some ''build'', dargs = Some [''--release''],
            dcwd = None, denv = None\<rparr>,
         task_scope = None, task_name = ''release build'', task_source = ''Workspace'',
         task_execution = None, task_problemMatchers = None, task_group = None\<rparr>
        \<lparr>folder_name = ''app'', fsPath = ''/home/app''\<rparr>) =
   Some (Some (ShellExecution_command ''cargo'' [''build'', ''--release'']
                 \<lparr>opt_cwd = None, opt_env = None\<rparr>)) \<and>
   commandLine (ShellExecution_command ''cargo'' [''build'', ''--release'']
                  \<lparr>opt_cwd = None, opt_env = None\<rparr>) = None \<and>
   Option.bind
     (Option.bind
        (resolveCargoTask
           \<lparr>task_definition =
              \<lparr>dtype = ''cargo'', dcommand = Some ''build'', dargs = Some [''--release''],
               dcwd = None, denv = None\<rparr>,
            task_scope = None, task_name = ''release build'', task_source = ''Workspace'',
            task_execution = None, task_problemMatchers = None, task_group = None\<rparr>
           \<lparr>folder_name = ''app'', fsPath = ''/home/app''\<rparr>)
        task_execution)
     commandLine = None"
  by (simp add: resolveCargoTask_def truthy_def Let_def new_Task_def nullish_or_def)

text \<open>
  C5, amended. For a definition of type \<^verbatim>\<open>cargo\<close> with a non-empty
  \<^verbatim>\<open>command\<close>, the resolver returns a task whose execution is a shell execution of
  the program \<^verbatim>\<open>cargo\<close> with the arguments
  \<^verbatim>\<open>[definition.command, ...(definition.args ?? [])]\<close> and with the \<^verbatim>\<open>cwd\<close> and
  \<^verbatim>\<open>env\<close> of the definition; the execution carries the program and the arguments
  apart, and its \<^verbatim>\<open>commandLine\<close> is \<^verbatim>\<open>undefined\<close>. For the command
  \<^verbatim>\<open>build\<close> with the arguments \<^verbatim>\<open>['--release']\<close>, whatever the rest of the
  task, the execution of the resolved task has the program \<^verbatim>\<open>cargo\<close> and the
  arguments \<^verbatim>\<open>['build', '--release']\<close>, and that program and those arguments joined
  by single spaces read \<^verbatim>\<open>cargo build --release\<close>.
\<close>

theorem resolveCargoTask_execution:
  "(dtype (task_definition task) = ''cargo'' \<and> dcommand (task_definition task) = Some c \<and>
    c \<noteq> [] \<longrightarrow>
      (\<exists>t. resolveCargoTask task target = Some t \<and>
           task_execution t =
             Some (ShellExecution_command ''cargo''
                     (c # nullish_or (dargs (task_definition task)) [])
                     \<lparr>opt_cwd = dcwd (task_definition task),
                      opt_env = denv (task_definition task)\<rparr>) \<and>
           Option.bind (task_execution t) commandLine = None)) \<and>
   (\<exists>t p a opts.
        resolveCargoTask
          (task\<lparr>task_definition :=
                  \<lparr>dtype = ''cargo'', dcommand = Some ''build'',
                   dargs = Some [''--release''], dcwd = None, denv = None\<rparr>\<rparr>) target = Some t \<and>
        task_execution t = Some (ShellExecution_command p a opts) \<and>
        p = ''cargo'' \<and> a = [''build'', ''--release''] \<and>
        opts = \<lparr>opt_cwd = None, opt_env = None\<rparr> \<and>
        Array_join '' '' (p # a) = ''cargo build --release'' \<and>
        Option.bind (task_execution t) commandLine = None)"
proof -
  have general: "\<exists>t. resolveCargoTask task target = Some t \<and>
           task_execution t =
             Some (ShellExecution_command ''cargo''
                     (c # nullish_or (dargs (task_definition task)) [])
                     \<lparr>opt_cwd = dcwd (task_definition task),
                      opt_env = denv (task_definition task)\<rparr>) \<and>
           Option.bind (task_execution t) commandLine = None"
    if "dtype (task_definition task) = ''cargo''"
      and "dcommand (task_definition task) = Some c" and "c \<noteq> []"
    using that
    by (simp add: resolveCargoTask_def truthy_def Let_def new_Task_def)
  have example: "\<exists>t p a opts.
        resolveCargoTask
          (task\<lparr>task_definition :=
                  \<lparr>dtype = ''cargo'', dcommand = Some ''build'',
                   dargs = Some [''--release''], dcwd = None, denv = None\<rparr>\<rparr>) target = Some t \<and>
        task_execution t = Some (ShellExecution_command p a opts) \<and>
        p = ''cargo'' \<and> a = [''build'', ''--release''] \<and>
        opts = \<lparr>opt_cwd = None, opt_env = None\<rparr> \<and>
        Array_join '' '' (p # a) = ''cargo build --release'' \<and>
        Option.bind (task_execution t) commandLine = None"
    by (simp add: resolveCargoTask_def truthy_def Let_def new_Task_def nullish_or_def)
  from general example show ?thesis
    by blast
qed

theorem resolveCargoTask_execution_witness:
  "\<exists>t. resolveCargoTask
         \<lparr>task_definition =
            \<lparr>dtype = ''cargo'', dcommand = Some ''test'', dargs = Some [''--all'', ''--lib''],
             dcwd = Some ''/home/app/sub'', denv = None\<rparr>,
          task_scope = None, task_name = ''my test'', task_source = ''Workspace'',
          task_execution = None, task_problemMatchers = None, task_group = None\<rparr>
         \<lparr>folder_name = ''app'', fsPath = ''/home/app''\<rparr> = Some t \<and>
       task_execution t =
         Some (ShellExecution_command ''cargo'' [''test'', ''--all'', ''--lib'']
                 \<lparr>opt_cwd = Some ''/home/app/sub'', opt_env = None\<rparr>) \<and>
       Option.bind (task_execution t) commandLine = None"
  using resolveCargoTask_execution
    [of "\<lparr>task_definition =
            \<lparr>dtype = ''cargo'', dcommand = Some ''test'', dargs = Some [''--all'', ''--lib''],
             dcwd = Some ''/home/app/sub'', denv = None\<rparr>,
          task_scope = None, task_name = ''my test'', task_source = ''Workspace'',
          task_execution = None, task_problemMatchers = None, task_group = None\<rparr>"
        "''test''" "\<lparr>folder_name = ''app'', fsPath = ''/home/app''\<rparr>"]
  by (simp add: nullish_or_def)

subsection \<open>Requests without a program\<close>

text \<open>
  C9, as stated, fails where the program name is the empty string given as
  \<^verbatim>\<open>command\<close> (or where both fields are absent): \<^verbatim>\<open>command || binary\<close> is then
  \<^verbatim>\<open>undefined\<close>, and the command line begins with the word \<^verbatim>\<open>undefined\<close>, not with
  an empty token.
\<close>

theorem createShellExecution_empty_program_undefined:
  "commandLine (createShellExecution
     \<lparr>binary = None, command = Some [], args = [''build''], env = None, cwd = None\<rparr>)
   = Some ''undefined build'' \<and>
   commandLine (createShellExecution
     \<lparr>binary = None, command = None, args = [''build''], env = None, cwd = None\<rparr>)
   = Some ''undefined build''"
  by (simp add: createShellExecution_def js_or_def truthy_def)

text \<open>
  C9, amended. \<open>createShellExecution\<close> returns a shell execution for every request;
  there is no error. When \<^verbatim>\<open>binary\<close> is the empty string and \<^verbatim>\<open>command\<close> is absent
  or empty, the command line is one space followed by the joined arguments; when
  \<^verbatim>\<open>binary\<close> is absent and \<^verbatim>\<open>command\<close> is absent or empty, it is the word
  \<^verbatim>\<open>undefined\<close>, one space, and the joined arguments.
\<close>

theorem createShellExecution_no_error:
  "(\<exists>l. createShellExecution e =
          ShellExecution_commandLine l \<lparr>opt_cwd = cwd e, opt_env = env e\<rparr>) \<and>
   ((command e = None \<or> command e = Some []) \<and> binary e = Some [] \<longrightarrow>
      commandLine (createShellExecution e) = Some ('' '' @ Array_join '' '' (args e))) \<and>
   ((command e = None \<or> command e = Some []) \<and> binary e = None \<longrightarrow>
      commandLine (createShellExecution e) =
        Some (''undefined '' @ Array_join '' '' (args e)))"
  by (auto simp: createShellExecution_def js_or_def truthy_def)

theorem createShellExecution_no_error_witness:
  "commandLine (createShellExecution
     \<lparr>binary = Some [], command = None, args = [''check'', ''--all''], env = None,
      cwd = None\<rparr>) = Some '' check --all'' \<and>
   commandLine (createShellExecution
     \<lparr>binary = None, command = Some [], args = [''check'', ''--all''], env = None,
      cwd = None\<rparr>) = Some ''undefined check --all''"
  using createShellExecution_no_error
    [of "\<lparr>binary = Some [], command = None, args = [''check'', ''--all''], env = None,
          cwd = None\<rparr>"]
    createShellExecution_no_error
    [of "\<lparr>binary = None, command = Some [], args = [''check'', ''--all''], env = None,
          cwd = None\<rparr>"]
  by simp

subsection \<open>Problem matchers\<close>




subsection \<open>The listener of an awaited submission\<close>

text \<open>
  Facts about one "task ended" notification and about a sequence of them.
\<close>

lemma endedLine_iff:
  "(instanceof_ShellExecution ex \<and> Option.bind ex commandLine = Some k) =
   (\<exists>opts. ex = Some (ShellExecution_commandLine k opts))"
proof (cases ex)
  case None
  then show ?thesis by simp
next
  case (Some x)
  then show ?thesis by (cases x) auto
qed

lemma bind_commandLine_iff:
  "(Option.bind ex commandLine = Some k) = (\<exists>opts. ex = Some (ShellExecution_commandLine k opts))"
proof (cases ex)
  case None
  then show ?thesis by simp
next
  case (Some x)
  then show ?thesis by (cases x) auto
qed

lemma fire_match:
  "registered p \<Longrightarrow> task_execution t = Some (ShellExecution_commandLine (key p) opts) \<Longrightarrow>
   onDidEndTask_fire t p = p\<lparr>registered := False, resolved := Suc (resolved p)\<rparr>"
  by (simp add: onDidEndTask_fire_def onDidEndTask_listener_def)

lemma fire_mismatch:
  "Option.bind (task_execution t) commandLine \<noteq> Some (key p) \<Longrightarrow> onDidEndTask_fire t p = p"
  by (simp add: onDidEndTask_fire_def onDidEndTask_listener_def)

lemma fire_not_shell:
  "\<not> instanceof_ShellExecution (task_execution t) \<Longrightarrow> onDidEndTask_fire t p = p"
  by (simp add: onDidEndTask_fire_def onDidEndTask_listener_def)

lemma fire_disposed: "\<not> registered p \<Longrightarrow> onDidEndTask_fire t p = p"
  by (simp add: onDidEndTask_fire_def)

lemma fire_changes:
  assumes "onDidEndTask_fire t p \<noteq> p"
  shows "registered p \<and> (\<exists>opts. task_execution t = Some (ShellExecution_commandLine (key p) opts))"
proof -
  from assms have r: "registered p"
    by (auto simp: onDidEndTask_fire_def split: if_splits)
  from assms r have "instanceof_ShellExecution (task_execution t) \<and>
      Option.bind (task_execution t) commandLine = Some (key p)"
    by (auto simp: onDidEndTask_fire_def onDidEndTask_listener_def Let_def split: if_splits)
  with r show ?thesis by (simp add: endedLine_iff)
qed

lemma notifications_Cons:
  "notifications (t # ts) p = notifications ts (onDidEndTask_fire t p)"
  by (simp add: notifications_def)

lemma notifications_Nil: "notifications [] p = p"
  by (simp add: notifications_def)

lemma notifications_disposed: "\<not> registered p \<Longrightarrow> notifications ts p = p"
  by (induction ts) (simp_all add: notifications_Nil notifications_Cons fire_disposed)

lemma notifications_waiting:
  assumes "registered p" and "resolved p = 0"
  shows "notifications ts p =
     (if \<exists>t \<in> set ts. Option.bind (task_execution t) commandLine = Some (key p)
      then p\<lparr>registered := False, resolved := 1\<rparr> else p)"
  using assms
proof (induction ts)
  case Nil
  then show ?case by (simp add: notifications_Nil)
next
  case (Cons t ts)
  show ?case
  proof (cases "Option.bind (task_execution t) commandLine = Some (key p)")
    case True
    then obtain opts where "task_execution t = Some (ShellExecution_commandLine (key p) opts)"
      by (auto simp: bind_commandLine_iff)
    with Cons.prems have "onDidEndTask_fire t p = p\<lparr>registered := False, resolved := 1\<rparr>"
      by (simp add: fire_match)
    with True show ?thesis
      by (simp add: notifications_Cons notifications_disposed)
  next
    case False
    then have "onDidEndTask_fire t p = p" by (rule fire_mismatch)
    with False Cons show ?thesis
      by (simp add: notifications_Cons)
  qed
qed

lemma notifications_not_shell:
  "\<forall>t \<in> set ts. \<not> instanceof_ShellExecution (task_execution t) \<Longrightarrow> notifications ts p = p"
  by (induction ts) (simp_all add: notifications_Nil notifications_Cons fire_not_shell)

lemma runTaskCommand_Inr:
  assumes "runTaskCommand e n folder wfs = Inr (t, p)"
  shows "registered p" and "resolved p = 0"
    and "\<exists>opts. task_execution t = Some (ShellExecution_commandLine (key p) opts)"
  using assms
  by (auto simp: runTaskCommand_def new_Task_def Let_def split: sum.splits)

text \<open>
  C6. On a "task ended" notification the listener of an awaited submission compares
  the command line of the ended task with its key. On a match it disposes its
  registration and resolves the promise; on a mismatch it stays as it is. Over any
  sequence of notifications the promise of a submission is resolved at most once, and it
  is resolved exactly when one of them carries the key; after that the listener is no
  longer registered. For two submissions with different command lines, made one after
  the other, each promise is resolved by the end of its own task and by nothing else:
  the end of the second task leaves the first promise pending, and a second end of the
  first task leaves the second promise pending.
\<close>

theorem runTaskCommand_completion_correlation:
  "(registered p \<and> task_execution t = Some (ShellExecution_commandLine (key p) opts) \<longrightarrow>
      onDidEndTask_fire t p = p\<lparr>registered := False, resolved := Suc (resolved p)\<rparr>) \<and>
   (Option.bind (task_execution t) commandLine \<noteq> Some (key p) \<longrightarrow>
      onDidEndTask_fire t p = p) \<and>
   (runTaskCommand e n folder wfs = Inr (t0, p0) \<longrightarrow>
      resolved (notifications ts p0) \<le> 1 \<and>
      (resolved (notifications ts p0) = 1) =
        (\<exists>t' \<in> set ts. Option.bind (task_execution t') commandLine = Some (key p0)) \<and>
      registered (notifications ts p0) = (resolved (notifications ts p0) = 0)) \<and>
   (runTaskCommand ea na folder wfs = Inr (ta, pa) \<and>
    runTaskCommand eb nb folder wfs = Inr (tb, pb) \<and> key pa \<noteq> key pb \<longrightarrow>
      session folder wfs [Submit ea na, TaskEnded ta, Submit eb nb, TaskEnded tb] =
        [pa\<lparr>registered := False, resolved := 1\<rparr>, pb\<lparr>registered := False, resolved := 1\<rparr>] \<and>
      session folder wfs [Submit ea na, TaskEnded tb] = [pa] \<and>
      session folder wfs [Submit ea na, TaskEnded ta, Submit eb nb, TaskEnded ta] =
        [pa\<lparr>registered := False, resolved := 1\<rparr>, pb])"
proof -
  have once: "resolved (notifications ts p0) \<le> 1 \<and>
      (resolved (notifications ts p0) = 1) =
        (\<exists>t' \<in> set ts. Option.bind (task_execution t') commandLine = Some (key p0)) \<and>
      registered (notifications ts p0) = (resolved (notifications ts p0) = 0)"
    if "runTaskCommand e n folder wfs = Inr (t0, p0)"
  proof -
    from that have "registered p0" and "resolved p0 = 0"
      by (rule runTaskCommand_Inr)+
    then show ?thesis
      by (simp add: notifications_waiting)
  qed
  have seq: "session folder wfs [Submit ea na, TaskEnded ta, Submit eb nb, TaskEnded tb] =
        [pa\<lparr>registered := False, resolved := 1\<rparr>, pb\<lparr>registered := False, resolved := 1\<rparr>] \<and>
      session folder wfs [Submit ea na, TaskEnded tb] = [pa] \<and>
      session folder wfs [Submit ea na, TaskEnded ta, Submit eb nb, TaskEnded ta] =
        [pa\<lparr>registered := False, resolved := 1\<rparr>, pb]"
    if a: "runTaskCommand ea na folder wfs = Inr (ta, pa)"
      and b: "runTaskCommand eb nb folder wfs = Inr (tb, pb)"
      and ne: "key pa \<noteq> key pb"
  proof -
    from a have pa: "registered pa" "resolved pa = 0"
      and ta: "\<exists>opts. task_execution ta = Some (ShellExecution_commandLine (key pa) opts)"
      by (rule runTaskCommand_Inr)+
    from b have pb: "registered pb" "resolved pb = 0"
      and tb: "\<exists>opts. task_execution tb = Some (ShellExecution_commandLine (key pb) opts)"
      by (rule runTaskCommand_Inr)+
    from pa ta have aa: "onDidEndTask_fire ta pa = pa\<lparr>registered := False, resolved := 1\<rparr>"
      by (auto simp: fire_match)
    from pb tb have bb: "onDidEndTask_fire tb pb = pb\<lparr>registered := False, resolved := 1\<rparr>"
      by (auto simp: fire_match)
    from tb ne have ba: "onDidEndTask_fire tb pa = pa"
      by (auto intro: fire_mismatch)
    from ta ne have ab: "onDidEndTask_fire ta pb = pb"
      by (auto intro: fire_mismatch)
    have dis: "onDidEndTask_fire t' (pa\<lparr>registered := False, resolved := 1\<rparr>) =
        pa\<lparr>registered := False, resolved := 1\<rparr>" for t'
      by (simp add: fire_disposed)
    from a b aa bb ba ab dis show ?thesis
      by (simp add: session_def)
  qed
  from once seq show ?thesis
    by (simp add: fire_match fire_mismatch)
qed

theorem runTaskCommand_completion_correlation_witness:
  "runTaskCommand \<lparr>binary = None, command = Some ''cargo'', args = [''build''], env = None, cwd = None\<rparr> ''Build''
     (Some \<lparr>folder_name = ''app'', fsPath = ''/home/app''\<rparr>) None =
   Inr ((new_Task shell_definition (Some \<lparr>folder_name = ''app'', fsPath = ''/home/app''\<rparr>) ''Build'' TASK_SOURCE
        (Some (ShellExecution_commandLine ''cargo build'' \<lparr>opt_cwd = Some ''/home/app'', opt_env = None\<rparr>)) None),
        \<lparr>key = ''cargo build'', registered = True, resolved = 0\<rparr>) \<and>
   runTaskCommand \<lparr>binary = None, command = Some ''rustup'', args = [''update''], env = None, cwd = None\<rparr> ''Update''
     (Some \<lparr>folder_name = ''app'', fsPath = ''/home/app''\<rparr>) None =
   Inr ((new_Task shell_definition (Some \<lparr>folder_name = ''app'', fsPath = ''/home/app''\<rparr>) ''Update'' TASK_SOURCE
        (Some (ShellExecution_commandLine ''rustup update'' \<lparr>opt_cwd = Some ''/home/app'', opt_env = None\<rparr>)) None),
        \<lparr>key = ''rustup update'', registered = True, resolved = 0\<rparr>) \<and>
   onDidEndTask_fire
     (new_Task shell_definition (Some \<lparr>folder_name = ''app'', fsPath = ''/home/app''\<rparr>) ''Build'' TASK_SOURCE
        (Some (ShellExecution_commandLine ''cargo build'' \<lparr>opt_cwd = Some ''/home/app'', opt_env = None\<rparr>)) None)
     \<lparr>key = ''cargo build'', registered = True, resolved = 0\<rparr> =
     \<lparr>key = ''cargo build'', registered = False, resolved = 1\<rparr> \<and>
   onDidEndTask_fire
     (new_Task shell_definition (Some \<lparr>folder_name = ''app'', fsPath = ''/home/app''\<rparr>) ''Update'' TASK_SOURCE
        (Some (ShellExecution_commandLine ''rustup update'' \<lparr>opt_cwd = Some ''/home/app'', opt_env = None\<rparr>)) None)
     \<lparr>key = ''cargo build'', registered = True, resolved = 0\<rparr> =
     \<lparr>key = ''cargo build'', registered = True, resolved = 0\<rparr> \<and>
   resolved (notifications
     [(new_Task shell_definition (Some \<lparr>folder_name = ''app'', fsPath = ''/home/app''\<rparr>) ''Update'' TASK_SOURCE
        (Some (ShellExecution_commandLine ''rustup update'' \<lparr>opt_cwd = Some ''/home/app'', opt_env = None\<rparr>)) None),
      (new_Task shell_definition (Some \<lparr>folder_name = ''app'', fsPath = ''/home/app''\<rparr>) ''Build'' TASK_SOURCE
        (Some (ShellExecution_commandLine ''cargo build'' \<lparr>opt_cwd = Some ''/home/app'', opt_env = None\<rparr>)) None),
      (new_Task shell_definition (Some \<lparr>folder_name = ''app'', fsPath = ''/home/app''\<rparr>) ''Build'' TASK_SOURCE
        (Some (ShellExecution_commandLine ''cargo build'' \<lparr>opt_cwd = Some ''/home/app'', opt_env = None\<rparr>)) None)]
     \<lparr>key = ''cargo build'', registered = True, resolved = 0\<rparr>) = 1 \<and>
   \<not> registered (notifications
     [(new_Task shell_definition (Some \<lparr>folder_name = ''app'', fsPath = ''/home/app''\<rparr>) ''Update'' TASK_SOURCE
        (Some (ShellExecution_commandLine ''rustup update'' \<lparr>opt_cwd = Some ''/home/app'', opt_env = None\<rparr>)) None),
      (new_Task shell_definition (Some \<lparr>folder_name = ''app'', fsPath = ''/home/app''\<rparr>) ''Build'' TASK_SOURCE
        (Some (ShellExecution_commandLine ''cargo build'' \<lparr>opt_cwd = Some ''/home/app'', opt_env = None\<rparr>)) None),
      (new_Task shell_definition (Some \<lparr>folder_name = ''app'', fsPath = ''/home/app''\<rparr>) ''Build'' TASK_SOURCE
        (Some (ShellExecution_commandLine ''cargo build'' \<lparr>opt_cwd = Some ''/home/app'', opt_env = None\<rparr>)) None)]
     \<lparr>key = ''cargo build'', registered = True, resolved = 0\<rparr>) \<and>
   session (Some \<lparr>folder_name = ''app'', fsPath = ''/home/app''\<rparr>) None
     [Submit \<lparr>binary = None, command = Some ''cargo'', args = [''build''], env = None, cwd = None\<rparr> ''Build'',
      TaskEnded (new_Task shell_definition (Some \<lparr>folder_name = ''app'', fsPath = ''/home/app''\<rparr>) ''Build'' TASK_SOURCE
        (Some (ShellExecution_commandLine ''cargo build'' \<lparr>opt_cwd = Some ''/home/app'', opt_env = None\<rparr>)) None),
      Submit \<lparr>binary = None, command = Some ''rustup'', args = [''update''], env = None, cwd = None\<rparr> ''Update'',
      TaskEnded (new_Task shell_definition (Some \<lparr>folder_name = ''app'', fsPath = ''/home/app''\<rparr>) ''Update'' TASK_SOURCE
        (Some (ShellExecution_commandLine ''rustup update'' \<lparr>opt_cwd = Some ''/home/app'', opt_env = None\<rparr>)) None)] =
     [\<lparr>key = ''cargo build'', registered = False, resolved = 1\<rparr>,
      \<lparr>key = ''rustup update'', registered = False, resolved = 1\<rparr>] \<and>
   session (Some \<lparr>folder_name = ''app'', fsPath = ''/home/app''\<rparr>) None
     [Submit \<lparr>binary = None, command = Some ''cargo'', args = [''build''], env = None, cwd = None\<rparr> ''Build'',
      TaskEnded (new_Task shell_definition (Some \<lparr>folder_name = ''app'', fsPath = ''/home/app''\<rparr>) ''Update'' TASK_SOURCE
        (Some (ShellExecution_commandLine ''rustup update'' \<lparr>opt_cwd = Some ''/home/app'', opt_env = None\<rparr>)) None)] =
     [\<lparr>key = ''cargo build'', registered = True, resolved = 0\<rparr>] \<and>
   session (Some \<lparr>folder_name = ''app'', fsPath = ''/home/app''\<rparr>) None
     [Submit \<lparr>binary = None, command = Some ''cargo'', args = [''build''], env = None, cwd = None\<rparr> ''Build'',
      TaskEnded (new_Task shell_definition (Some \<lparr>folder_name = ''app'', fsPath = ''/home/app''\<rparr>) ''Build'' TASK_SOURCE
        (Some (ShellExecution_commandLine ''cargo build'' \<lparr>opt_cwd = Some ''/home/app'', opt_env = None\<rparr>)) None),
      Submit \<lparr>binary = None, command = Some ''rustup'', args = [''update''], env = None, cwd = None\<rparr> ''Update'',
      TaskEnded (new_Task shell_definition (Some \<lparr>folder_name = ''app'', fsPath = ''/home/app''\<rparr>) ''Build'' TASK_SOURCE
        (Some (ShellExecution_commandLine ''cargo build'' \<lparr>opt_cwd = Some ''/home/app'', opt_env = None\<rparr>)) None)] =
     [\<lparr>key = ''cargo build'', registered = False, resolved = 1\<rparr>,
      \<lparr>key = ''rustup update'', registered = True, resolved = 0\<rparr>]"
proof -
  let ?f = "\<lparr>folder_name = ''app'', fsPath = ''/home/app''\<rparr>"
  let ?ea = "\<lparr>binary = None, command = Some ''cargo'', args = [''build''], env = None, cwd = None\<rparr>"
  let ?eb = "\<lparr>binary = None, command = Some ''rustup'', args = [''update''], env = None, cwd = None\<rparr>"
  let ?opts = "\<lparr>opt_cwd = Some ''/home/app'', opt_env = None\<rparr>"
  let ?ta = "(new_Task shell_definition (Some \<lparr>folder_name = ''app'', fsPath = ''/home/app''\<rparr>) ''Build'' TASK_SOURCE
        (Some (ShellExecution_commandLine ''cargo build'' \<lparr>opt_cwd = Some ''/home/app'', opt_env = None\<rparr>)) None)"
  let ?tb = "(new_Task shell_definition (Some \<lparr>folder_name = ''app'', fsPath = ''/home/app''\<rparr>) ''Update'' TASK_SOURCE
        (Some (ShellExecution_commandLine ''rustup update'' \<lparr>opt_cwd = Some ''/home/app'', opt_env = None\<rparr>)) None)"
  let ?pa = "\<lparr>key = ''cargo build'', registered = True, resolved = 0\<rparr>"
  let ?pb = "\<lparr>key = ''rustup update'', registered = True, resolved = 0\<rparr>"
  have a: "runTaskCommand ?ea ''Build'' (Some ?f) None = Inr (?ta, ?pa)"
    by (simp add: runTaskCommand_def task_folder_def Let_def js_or_def truthy_def)
  have b: "runTaskCommand ?eb ''Update'' (Some ?f) None = Inr (?tb, ?pb)"
    by (simp add: runTaskCommand_def task_folder_def Let_def js_or_def truthy_def)
  have ne: "key ?pa \<noteq> key ?pb"
    by simp
  have own: "registered ?pa \<and>
      task_execution ?ta = Some (ShellExecution_commandLine (key ?pa) ?opts)"
    by (simp add: new_Task_def)
  have other: "Option.bind (task_execution ?tb) commandLine \<noteq> Some (key ?pa)"
    by (simp add: new_Task_def)
  have ex: "\<exists>t' \<in> set [?tb, ?ta, ?ta].
      Option.bind (task_execution t') commandLine = Some (key ?pa)"
    by (simp add: new_Task_def)
  note own_thm = runTaskCommand_completion_correlation
    [where p = ?pa and t = ?ta and opts = ?opts and e = ?ea and n = "''Build''"
       and folder = "Some ?f" and wfs = None and ?t0.0 = ?ta and ?p0.0 = ?pa
       and ts = "[?tb, ?ta, ?ta]" and ea = ?ea and na = "''Build''" and ta = ?ta
       and pa = ?pa and eb = ?eb and nb = "''Update''" and tb = ?tb and pb = ?pb]
  note other_thm = runTaskCommand_completion_correlation
    [where p = ?pa and t = ?tb and opts = ?opts and e = ?ea and n = "''Build''"
       and folder = "Some ?f" and wfs = None and ?t0.0 = ?ta and ?p0.0 = ?pa
       and ts = "[?tb, ?ta, ?ta]" and ea = ?ea and na = "''Build''" and ta = ?ta
       and pa = ?pa and eb = ?eb and nb = "''Update''" and tb = ?tb and pb = ?pb]
  from own_thm own have c1: "onDidEndTask_fire ?ta ?pa =
      ?pa\<lparr>registered := False, resolved := Suc (resolved ?pa)\<rparr>"
    by blast
  from other_thm other have c2: "onDidEndTask_fire ?tb ?pa = ?pa"
    by blast
  from own_thm a ex have c3: "resolved (notifications [?tb, ?ta, ?ta] ?pa) = 1"
    and c4: "\<not> registered (notifications [?tb, ?ta, ?ta] ?pa)"
    by simp_all
  from own_thm a b ne have c5:
    "session (Some ?f) None [Submit ?ea ''Build'', TaskEnded ?ta, Submit ?eb ''Update'',
        TaskEnded ?tb] =
       [?pa\<lparr>registered := False, resolved := 1\<rparr>, ?pb\<lparr>registered := False, resolved := 1\<rparr>] \<and>
     session (Some ?f) None [Submit ?ea ''Build'', TaskEnded ?tb] = [?pa] \<and>
     session (Some ?f) None [Submit ?ea ''Build'', TaskEnded ?ta, Submit ?eb ''Update'',
        TaskEnded ?ta] =
       [?pa\<lparr>registered := False, resolved := 1\<rparr>, ?pb]"
    by blast
  from a b c1 c2 c3 c4 c5 show ?thesis
    by simp
qed

text \<open>
  C10. A notification for a task whose execution is not a \<^verbatim>\<open>ShellExecution\<close> (a
  process execution, a custom execution, or none) leaves the pending promise and its
  registration as they are, and so does any sequence of such notifications; the same
  holds for a \<^verbatim>\<open>ShellExecution\<close> built from a command and arguments, whose
  \<^verbatim>\<open>commandLine\<close> is \<^verbatim>\<open>undefined\<close>. A notification that changes the pending promise
  comes from a task whose execution is a \<^verbatim>\<open>ShellExecution\<close> with the key as its
  \<^verbatim>\<open>commandLine\<close>, delivered while the listener is registered.
\<close>

theorem non_ShellExecution_never_resolves:
  "(\<not> instanceof_ShellExecution (task_execution t) \<longrightarrow> onDidEndTask_fire t p = p) \<and>
   (task_execution t = Some (ShellExecution_command c a opts) \<longrightarrow>
      onDidEndTask_fire t p = p) \<and>
   ((\<forall>t' \<in> set ts. \<not> instanceof_ShellExecution (task_execution t')) \<longrightarrow>
      notifications ts p = p) \<and>
   (onDidEndTask_fire t p \<noteq> p \<longrightarrow>
      registered p \<and>
      (\<exists>opts'. task_execution t = Some (ShellExecution_commandLine (key p) opts')))"
proof -
  have "task_execution t = Some (ShellExecution_command c a opts) \<longrightarrow>
      onDidEndTask_fire t p = p"
    by (simp add: fire_mismatch)
  then show ?thesis
    using fire_not_shell [of t p] notifications_not_shell [of ts p] fire_changes [of t p]
    by blast
qed

theorem non_ShellExecution_never_resolves_witness:
  "onDidEndTask_fire
     (new_Task shell_definition (Some \<lparr>folder_name = ''app'', fsPath = ''/home/app''\<rparr>) ''Build'' TASK_SOURCE
        (Some (ProcessExecution ''cargo build'' [])) None)
     \<lparr>key = ''cargo build'', registered = True, resolved = 0\<rparr> =
     \<lparr>key = ''cargo build'', registered = True, resolved = 0\<rparr> \<and>
   onDidEndTask_fire
     (new_Task shell_definition (Some \<lparr>folder_name = ''app'', fsPath = ''/home/app''\<rparr>) ''Build'' TASK_SOURCE
        (Some (ShellExecution_command ''cargo'' [''build''] \<lparr>opt_cwd = Some ''/home/app'', opt_env = None\<rparr>)) None)
     \<lparr>key = ''cargo build'', registered = True, resolved = 0\<rparr> =
     \<lparr>key = ''cargo build'', registered = True, resolved = 0\<rparr> \<and>
   notifications
     [(new_Task shell_definition (Some \<lparr>folder_name = ''app'', fsPath = ''/home/app''\<rparr>) ''Build'' TASK_SOURCE
        (Some (ProcessExecution ''cargo build'' [])) None),
      (new_Task shell_definition (Some \<lparr>folder_name = ''app'', fsPath = ''/home/app''\<rparr>) ''Build'' TASK_SOURCE
        (Some (CustomExecution)) None)]
     \<lparr>key = ''cargo build'', registered = True, resolved = 0\<rparr> =
     \<lparr>key = ''cargo build'', registered = True, resolved = 0\<rparr> \<and>
   onDidEndTask_fire
     (new_Task shell_definition (Some \<lparr>folder_name = ''app'', fsPath = ''/home/app''\<rparr>) ''Build'' TASK_SOURCE
        (Some (ShellExecution_commandLine ''cargo build'' \<lparr>opt_cwd = Some ''/home/app'', opt_env = None\<rparr>)) None)
     \<lparr>key = ''cargo build'', registered = True, resolved = 0\<rparr> \<noteq>
     \<lparr>key = ''cargo build'', registered = True, resolved = 0\<rparr> \<and>
   task_execution
     (new_Task shell_definition (Some \<lparr>folder_name = ''app'', fsPath = ''/home/app''\<rparr>) ''Build'' TASK_SOURCE
        (Some (ShellExecution_commandLine ''cargo build'' \<lparr>opt_cwd = Some ''/home/app'', opt_env = None\<rparr>)) None) =
     Some (ShellExecution_commandLine ''cargo build'' \<lparr>opt_cwd = Some ''/home/app'', opt_env = None\<rparr>)"
proof -
  let ?opts = "\<lparr>opt_cwd = Some ''/home/app'', opt_env = None\<rparr>"
  let ?tproc = "(new_Task shell_definition (Some \<lparr>folder_name = ''app'', fsPath = ''/home/app''\<rparr>) ''Build'' TASK_SOURCE
        (Some (ProcessExecution ''cargo build'' [])) None)"
  let ?targs = "(new_Task shell_definition (Some \<lparr>folder_name = ''app'', fsPath = ''/home/app''\<rparr>) ''Build'' TASK_SOURCE
        (Some (ShellExecution_command ''cargo'' [''build''] \<lparr>opt_cwd = Some ''/home/app'', opt_env = None\<rparr>)) None)"
  let ?tcustom = "(new_Task shell_definition (Some \<lparr>folder_name = ''app'', fsPath = ''/home/app''\<rparr>) ''Build'' TASK_SOURCE
        (Some (CustomExecution)) None)"
  let ?ta = "(new_Task shell_definition (Some \<lparr>folder_name = ''app'', fsPath = ''/home/app''\<rparr>) ''Build'' TASK_SOURCE
        (Some (ShellExecution_commandLine ''cargo build'' \<lparr>opt_cwd = Some ''/home/app'', opt_env = None\<rparr>)) None)"
  let ?pa = "\<lparr>key = ''cargo build'', registered = True, resolved = 0\<rparr>"
  have h1: "\<not> instanceof_ShellExecution (task_execution ?tproc)"
    by (simp add: new_Task_def)
  have h2: "task_execution ?targs = Some (ShellExecution_command ''cargo'' [''build''] ?opts)"
    by (simp add: new_Task_def)
  have h3: "\<forall>t' \<in> set [?tproc, ?tcustom]. \<not> instanceof_ShellExecution (task_execution t')"
    by (simp add: new_Task_def)
  have h4: "onDidEndTask_fire ?ta ?pa \<noteq> ?pa"
    by (simp add: onDidEndTask_fire_def onDidEndTask_listener_def new_Task_def)
  note proc = non_ShellExecution_never_resolves
    [where t = ?tproc and p = ?pa and c = "''cargo''" and a = "[''build'']" and opts = ?opts
       and ts = "[?tproc, ?tcustom]"]
  note args = non_ShellExecution_never_resolves
    [where t = ?targs and p = ?pa and c = "''cargo''" and a = "[''build'']" and opts = ?opts
       and ts = "[?tproc, ?tcustom]"]
  note shell = non_ShellExecution_never_resolves
    [where t = ?ta and p = ?pa and c = "''cargo''" and a = "[''build'']" and opts = ?opts
       and ts = "[?tproc, ?tcustom]"]
  from proc h1 have c1: "onDidEndTask_fire ?tproc ?pa = ?pa"
    by blast
  from args h2 have c2: "onDidEndTask_fire ?targs ?pa = ?pa"
    by blast
  from proc h3 have c3: "notifications [?tproc, ?tcustom] ?pa = ?pa"
    by blast
  from shell h4 have c4: "\<exists>opts'. task_execution ?ta =
      Some (ShellExecution_commandLine (key ?pa) opts')"
    by blast
  from c1 c2 c3 c4 h4 show ?thesis
    by (simp add: new_Task_def)
qed

end
